theory Spec2Isabelle
  imports Complex_Main
begin

section \<open>Race estimator: anomaly detector and finish-time projection\<close>

text \<open>
  The development embeds three Python scripts:
  \<^item> \<^verbatim>\<open>scripts/validate_fit_anomaly_detection.py\<close>: class \<^verbatim>\<open>FitAnomalyDetector\<close>
    (\<^verbatim>\<open>__init__\<close>, \<^verbatim>\<open>reset\<close>, \<^verbatim>\<open>detect\<close>), the driver \<^verbatim>\<open>test_scenario\<close> and the
    event list of \<^verbatim>\<open>test_pace_spike_recovery\<close>;
  \<^item> \<^verbatim>\<open>scripts/analyze_fit.py\<close>: the pace and 5K estimate computed per record in
    \<^verbatim>\<open>analyze_fit_file\<close>;
  \<^item> \<^verbatim>\<open>scripts/analyze_gpx.py\<close>: the pace and 5K estimate computed per sampled
    trackpoint in \<^verbatim>\<open>parse_gpx\<close>.

  Python floats are idealised as \<^typ>\<open>real\<close>: rounding, infinities and NaN are not
  modelled. The two counters of the detector start at 0 and are only ever incremented by
  one or set back to 0, so they are \<^typ>\<open>nat\<close>. A Python exception is a value
  \<open>Inl e\<close> of a sum type, a normal return is \<open>Inr v\<close>. An attribute of \<^verbatim>\<open>self\<close>
  that is mutated becomes a field of a record that the function returns updated.
\<close>

subsection \<open>Exceptions and float division\<close>

datatype py_error = ZeroDivisionError

text \<open>Python's \<^verbatim>\<open>a / b\<close> on numbers: raises \<^verbatim>\<open>ZeroDivisionError\<close> when \<^verbatim>\<open>b == 0\<close>.\<close>

definition py_truediv :: "real \<Rightarrow> real \<Rightarrow> py_error + real" where
  "py_truediv a b = (if b = 0 then Inl ZeroDivisionError else Inr (a / b))"

subsection \<open>\<^verbatim>\<open>FitAnomalyDetector\<close>\<close>

text \<open>
  The four mutable attributes of the detector. The three attributes
  \<^verbatim>\<open>FIT_STAGNATION_THRESHOLD\<close>, \<^verbatim>\<open>MAX_REASONABLE_PACE\<close> and \<^verbatim>\<open>MIN_REASONABLE_PACE\<close>
  are assigned once in \<^verbatim>\<open>__init__\<close> and never again, not even by \<^verbatim>\<open>reset\<close>; they
  are constants of the model.
\<close>

record detector =
  last_valid_distance :: real
  distance_stagnation_count :: nat
  last_valid_pace :: real
  pace_anomaly_count :: nat

definition FIT_STAGNATION_THRESHOLD :: nat where
  "FIT_STAGNATION_THRESHOLD = 5"

definition MAX_REASONABLE_PACE :: real where
  "MAX_REASONABLE_PACE = 20.0"

definition MIN_REASONABLE_PACE :: real where
  "MIN_REASONABLE_PACE = 0.05"

text \<open>\<^verbatim>\<open>__init__\<close>: the state of a freshly constructed detector.\<close>

definition init :: detector where
  "init = \<lparr>last_valid_distance = 0.0, distance_stagnation_count = 0,
           last_valid_pace = 0.0, pace_anomaly_count = 0\<rparr>"

text \<open>\<^verbatim>\<open>reset\<close>: assigns the same four values to an existing detector.\<close>

definition reset :: "detector \<Rightarrow> detector" where
  "reset self = self\<lparr>last_valid_distance := 0.0, distance_stagnation_count := 0,
                     last_valid_pace := 0.0, pace_anomaly_count := 0\<rparr>"

text \<open>
  The entries that \<^verbatim>\<open>detect\<close> appends to its list \<^verbatim>\<open>explanation\<close>. The source
  formats each as a string and joins the list with an arrow on return; the model keeps the
  list and, instead of the formatted digits, the numbers that are formatted:
  \<^item> \<open>Insane_pace pace\<close>: \<^verbatim>\<open>"Insane pace {pace:.3f} sec/m (bounds: ...)"\<close>;
  \<^item> \<open>Distance_stagnation n\<close>: \<^verbatim>\<open>"Distance stagnation: {n}/{FIT_STAGNATION_THRESHOLD}"\<close>;
  \<^item> \<open>Distance_frozen_suppress\<close>: \<^verbatim>\<open>"DISTANCE FROZEN - SUPPRESS"\<close>;
  \<^item> \<open>Pace_spike ratio n\<close>: \<^verbatim>\<open>"Pace spike: ratio={ratio:.2f} anomaly_count={n}"\<close>;
  \<^item> \<open>Multiple_pace_spikes_suppress\<close>: \<^verbatim>\<open>"MULTIPLE PACE SPIKES - SUPPRESS"\<close>;
  \<^item> \<open>Normal_show_predictions\<close>: \<^verbatim>\<open>"NORMAL - SHOW PREDICTIONS"\<close> (after a check mark).
\<close>

datatype reason =
    Insane_pace real
  | Distance_stagnation nat
  | Distance_frozen_suppress
  | Pace_spike real nat
  | Multiple_pace_spikes_suppress
  | Normal_show_predictions

text \<open>
  What one call of \<^verbatim>\<open>detect\<close> yields: the returned pair (the boolean, which
  \<^verbatim>\<open>test_scenario\<close> binds to \<^verbatim>\<open>should_show\<close>, and the explanation) and the detector
  after the call.
\<close>

type_synonym detect_result = "bool \<times> reason list \<times> detector"

text \<open>
  \<^verbatim>\<open>detect\<close> has three early returns, so its body is cut at the two places where
  control can continue: \<open>detect_tail\<close> is lines 79 to 81 (accept the pace, return
  \<^verbatim>\<open>True\<close>), \<open>detect_pace\<close> is lines 66 to 81 (the pace consistency check and
  what follows it), \<open>detect\<close> is the whole body.
\<close>

definition detect_tail :: "detector \<Rightarrow> reason list \<Rightarrow> real \<Rightarrow> py_error + detect_result" where
  "detect_tail self explanation pace =
     Inr (True, explanation @ [Normal_show_predictions], self\<lparr>last_valid_pace := pace\<rparr>)"

definition detect_pace :: "detector \<Rightarrow> reason list \<Rightarrow> real \<Rightarrow> py_error + detect_result" where
  "detect_pace self explanation pace =
     (if last_valid_pace self > 0.0 then
        (case py_truediv pace (last_valid_pace self) of
           Inl e \<Rightarrow> Inl e
         | Inr pace_ratio \<Rightarrow>
             if pace_ratio > 2.0 \<or> pace_ratio < 0.5 then
               (let self1 = self\<lparr>pace_anomaly_count := pace_anomaly_count self + 1\<rparr>;
                    explanation1 = explanation @ [Pace_spike pace_ratio (pace_anomaly_count self1)]
                in if pace_anomaly_count self1 \<ge> 3 then
                     Inr (False, explanation1 @ [Multiple_pace_spikes_suppress], self1)
                   else detect_tail self1 explanation1 pace)
             else detect_tail (self\<lparr>pace_anomaly_count := 0\<rparr>) explanation pace)
      else detect_tail self explanation pace)"

definition detect :: "detector \<Rightarrow> real \<Rightarrow> real \<Rightarrow> py_error + detect_result" where
  "detect self elapsed_distance pace =
     (if pace < MIN_REASONABLE_PACE \<or> pace > MAX_REASONABLE_PACE then
        Inr (False, [Insane_pace pace], self)
      else if \<bar>elapsed_distance - last_valid_distance self\<bar> < 0.001 then
        (let self1 = self\<lparr>distance_stagnation_count := distance_stagnation_count self + 1\<rparr>;
             explanation1 = [Distance_stagnation (distance_stagnation_count self1)]
         in if distance_stagnation_count self1 \<ge> FIT_STAGNATION_THRESHOLD then
              Inr (False, explanation1 @ [Distance_frozen_suppress], self1)
            else detect_pace self1 explanation1 pace)
      else
        detect_pace (self\<lparr>distance_stagnation_count := 0,
                          last_valid_distance := elapsed_distance\<rparr>) [] pace)"

subsection \<open>The 5K estimate of \<^verbatim>\<open>analyze_fit.py\<close>\<close>

text \<open>
  Lines 104 to 108 of \<^verbatim>\<open>analyze_fit_file\<close>: the pace of a record, from its timer value
  in milliseconds and its distance in metres. The source rounds each of the two divisions
  to a float, the model divides reals: at 5100 ms and 102 m the source's pace is
  0.049999999999999996, just below the bound 0.05, where the real quotient is 0.05. The
  instances of this computation in the theorems below are at inputs where both divisions
  are exact or the distance test alone decides.
\<close>

definition pace_sec_per_m_fit :: "real \<Rightarrow> real \<Rightarrow> py_error + real" where
  "pace_sec_per_m_fit timer_ms distance_m =
     (if distance_m > 0 then py_truediv (timer_ms / 1000.0) distance_m else Inr 0)"

text \<open>
  Lines 110 to 118: the estimate, from the distance and the pace just computed. The source
  writes the target distance as the literal 5000; here it is the parameter \<open>target\<close>,
  and the source's computation is the instance \<open>estimate_fit 5000\<close>, used in
  \<open>est_5k_sec_fit\<close> below. The result is the value of \<^verbatim>\<open>est_5k_sec\<close>.
\<close>

definition estimate_fit :: "real \<Rightarrow> real \<Rightarrow> real \<Rightarrow> real" where
  "estimate_fit target distance_m pace_sec_per_m =
     (if distance_m > 100 \<and> 0.05 \<le> pace_sec_per_m \<and> pace_sec_per_m \<le> 20.0 then
        (let remaining_5k = target - distance_m
         in if remaining_5k > 0 then remaining_5k * pace_sec_per_m else 0)
      else 0)"

text \<open>
  Lines 104 to 118 in sequence, for one record: \<open>est_sec_fit\<close> with the target as a
  parameter, \<open>est_5k_sec_fit\<close> as the source has it.
\<close>

definition est_sec_fit :: "real \<Rightarrow> real \<Rightarrow> real \<Rightarrow> py_error + real" where
  "est_sec_fit target timer_ms distance_m =
     (case pace_sec_per_m_fit timer_ms distance_m of
        Inl e \<Rightarrow> Inl e
      | Inr pace_sec_per_m \<Rightarrow> Inr (estimate_fit target distance_m pace_sec_per_m))"

definition est_5k_sec_fit :: "real \<Rightarrow> real \<Rightarrow> py_error + real" where
  "est_5k_sec_fit timer_ms distance_m = est_sec_fit 5000 timer_ms distance_m"

subsection \<open>The 5K estimate of \<^verbatim>\<open>analyze_gpx.py\<close>\<close>

text \<open>Lines 155 to 159 of \<^verbatim>\<open>parse_gpx\<close>: the pace of a trackpoint.\<close>

definition pace_sec_per_m_gpx :: "real \<Rightarrow> real \<Rightarrow> py_error + real" where
  "pace_sec_per_m_gpx elapsed_sec distance_m =
     (if distance_m > 0 then py_truediv elapsed_sec distance_m else Inr 0)"

text \<open>
  The two strings a table row ends with. \<^verbatim>\<open>est_5k_str\<close> is minutes and seconds
  (\<open>Min_sec\<close>, printed as \<^verbatim>\<open>"{m}:{s:02d}"\<close>), \<^verbatim>\<open>"HIT!"\<close> or \<^verbatim>\<open>"--:--"\<close>;
  \<^verbatim>\<open>display_status\<close> is a check mark (\<open>Check\<close>), the check mark followed by
  \<^verbatim>\<open>HIT\<close> (\<open>Check_HIT\<close>), \<^verbatim>\<open>"WARMUP"\<close> or \<^verbatim>\<open>"INSANE"\<close>.
\<close>

datatype est_5k_str = Min_sec int int | HIT | Dashes

datatype display_status = Check | Check_HIT | WARMUP | INSANE

text \<open>
  Lines 161 to 181. The result is the value of \<^verbatim>\<open>est_5k_sec\<close> on the one path that
  assigns it (\<open>None\<close> on the others), then \<^verbatim>\<open>est_5k_str\<close> and \<^verbatim>\<open>display_status\<close>.
  As above, \<open>target\<close> stands for the literal 5000 of the source. For a float \<open>x\<close>
  that is not negative, \<^verbatim>\<open>int(x // 60)\<close> is \<open>\<lfloor>x / 60\<rfloor>\<close> and \<^verbatim>\<open>int(x % 60)\<close> is
  \<open>\<lfloor>x - 60 * \<lfloor>x / 60\<rfloor>\<rfloor>\<close>.
\<close>

type_synonym gpx_row = "real option \<times> est_5k_str \<times> display_status"

definition estimate_gpx :: "real \<Rightarrow> real \<Rightarrow> real \<Rightarrow> gpx_row" where
  "estimate_gpx target distance_m pace_sec_per_m =
     (let min_distance_reached = (distance_m \<ge> 100);
          pace_is_sane = (0.05 \<le> pace_sec_per_m \<and> pace_sec_per_m \<le> 20.0)
      in if min_distance_reached \<and> pace_is_sane then
           (let remaining_5k = target - distance_m
            in if remaining_5k > 0 then
                 (let est_5k_sec = remaining_5k * pace_sec_per_m;
                      est_5k_min = \<lfloor>est_5k_sec / 60\<rfloor>;
                      est_5k_sec_part = \<lfloor>est_5k_sec - 60 * of_int \<lfloor>est_5k_sec / 60\<rfloor>\<rfloor>
                  in (Some est_5k_sec, Min_sec est_5k_min est_5k_sec_part, Check))
               else (None, HIT, Check_HIT))
         else (None, Dashes, if \<not> min_distance_reached then WARMUP else INSANE))"

text \<open>
  Lines 155 to 181 in sequence, for one sampled trackpoint: \<open>est_gpx\<close> with the target
  as a parameter, \<open>est_5k_gpx\<close> as the source has it.
\<close>

definition est_gpx :: "real \<Rightarrow> real \<Rightarrow> real \<Rightarrow> py_error + gpx_row" where
  "est_gpx target elapsed_sec distance_m =
     (case pace_sec_per_m_gpx elapsed_sec distance_m of
        Inl e \<Rightarrow> Inl e
      | Inr pace_sec_per_m \<Rightarrow> Inr (estimate_gpx target distance_m pace_sec_per_m))"

definition est_5k_gpx :: "real \<Rightarrow> real \<Rightarrow> py_error + gpx_row" where
  "est_5k_gpx elapsed_sec distance_m = est_gpx 5000 elapsed_sec distance_m"

subsection \<open>\<^verbatim>\<open>PaceEvent\<close> and \<^verbatim>\<open>test_scenario\<close>\<close>

record PaceEvent =
  elapsed_time_ms :: int
  distance_m :: real
  calculated_pace :: real
  anomaly_type :: "string option"
  explanation :: string

text \<open>
  Line 94, the one place where the scripts call the detector: of an event, only
  \<^verbatim>\<open>distance_m\<close> and \<^verbatim>\<open>calculated_pace\<close> are passed on.
\<close>

definition detect_event :: "detector \<Rightarrow> PaceEvent \<Rightarrow> py_error + detect_result" where
  "detect_event detector event = detect detector (distance_m event) (calculated_pace event)"

text \<open>
  The loop of \<^verbatim>\<open>test_scenario\<close> (lines 93 to 103): the detector is called on each event
  in turn. The model collects what the loop prints per event, the pair
  \<^verbatim>\<open>(should_show, explanation)\<close>, and returns the detector after the last event.
\<close>

fun run_events :: "detector \<Rightarrow> PaceEvent list \<Rightarrow> py_error + ((bool \<times> reason list) list \<times> detector)" where
  "run_events detector [] = Inr ([], detector)"
| "run_events detector (event # events) =
     (case detect_event detector event of
        Inl e \<Rightarrow> Inl e
      | Inr (should_show, expl, detector1) \<Rightarrow>
          (case run_events detector1 events of
             Inl e \<Rightarrow> Inl e
           | Inr (rows, detector2) \<Rightarrow> Inr ((should_show, expl) # rows, detector2)))"

text \<open>
  \<^verbatim>\<open>test_scenario\<close>: a fresh detector (line 90), the loop, and \<^verbatim>\<open>suppression_count\<close>,
  the number of events for which \<^verbatim>\<open>should_show\<close> was false.
\<close>

definition test_scenario :: "PaceEvent list \<Rightarrow> py_error + ((bool \<times> reason list) list \<times> detector \<times> nat)" where
  "test_scenario events =
     (case run_events init events of
        Inl e \<Rightarrow> Inl e
      | Inr (rows, detector1) \<Rightarrow>
          Inr (rows, detector1, length (filter (\<lambda>(should_show, expl). \<not> should_show) rows)))"

text \<open>The events of \<^verbatim>\<open>test_pace_spike_recovery\<close> (lines 141 to 149).\<close>

definition pace_spike_recovery_events :: "PaceEvent list" where
  "pace_spike_recovery_events =
     [\<lparr>elapsed_time_ms = 10000, distance_m = 1000.00, calculated_pace = 0.100,
       anomaly_type = Some ''normal'', explanation = ''Normal pace''\<rparr>,
      \<lparr>elapsed_time_ms = 20000, distance_m = 1050.00, calculated_pace = 0.105,
       anomaly_type = Some ''normal'', explanation = ''Slight variance OK''\<rparr>,
      \<lparr>elapsed_time_ms = 30000, distance_m = 1100.00, calculated_pace = 0.111,
       anomaly_type = Some ''normal'', explanation = ''Gradual change OK''\<rparr>,
      \<lparr>elapsed_time_ms = 40000, distance_m = 900.00, calculated_pace = 0.044,
       anomaly_type = Some ''spike'', explanation = ''SPIKE DOWN (2.5x faster)''\<rparr>,
      \<lparr>elapsed_time_ms = 50000, distance_m = 950.00, calculated_pace = 0.105,
       anomaly_type = Some ''spike'', explanation = ''SPIKE UP (2.4x slower)''\<rparr>,
      \<lparr>elapsed_time_ms = 60000, distance_m = 1000.00, calculated_pace = 0.100,
       anomaly_type = Some ''spike'',
       explanation = ''Back to normal after 3 spikes - SUPPRESS''\<rparr>,
      \<lparr>elapsed_time_ms = 70000, distance_m = 1050.00, calculated_pace = 0.105,
       anomaly_type = Some ''normal'', explanation = ''Reset on recovery''\<rparr>]"

section \<open>One call of the detector\<close>

text \<open>\<^verbatim>\<open>reset\<close> puts any detector back into the state of a fresh one.\<close>

lemma reset_init: "reset self = init"
  by (simp add: reset_def init_def)

lemmas detect_defs =
  detect_def detect_pace_def detect_tail_def py_truediv_def Let_def
  MIN_REASONABLE_PACE_def MAX_REASONABLE_PACE_def FIT_STAGNATION_THRESHOLD_def

text \<open>Every call returns: the one division is behind the test \<^verbatim>\<open>last_valid_pace > 0.0\<close>.\<close>

lemma detect_returns: "\<exists>r. detect self d pace = Inr r"
  by (auto simp add: detect_defs)

text \<open>
  A sample whose pace is in bounds and whose distance is within 0.001 of
  \<^verbatim>\<open>last_valid_distance\<close>, when the incremented counter reaches the threshold: the
  call returns at line 61.
\<close>

lemma detect_distance_frozen:
  assumes "0.05 \<le> pace \<and> pace \<le> 20.0"
    and "\<bar>d - last_valid_distance self\<bar> < 0.001"
    and "distance_stagnation_count self + 1 \<ge> 5"
  shows "detect self d pace =
           Inr (False,
                [Distance_stagnation (distance_stagnation_count self + 1),
                 Distance_frozen_suppress],
                self\<lparr>distance_stagnation_count := distance_stagnation_count self + 1\<rparr>)"
  using assms by (simp add: detect_defs)

text \<open>
  The same sample in general, when the pace check does not count a spike: either there is
  no accepted pace yet, or the ratio is in range.
\<close>

lemma detect_stagnant_in_range:
  assumes "0.05 \<le> p \<and> p \<le> 20.0"
    and "\<bar>d - last_valid_distance s\<bar> < 0.001"
    and "0 < last_valid_pace s \<longrightarrow>
           0.5 \<le> p / last_valid_pace s \<and> p / last_valid_pace s \<le> 2.0"
  shows "detect s d p =
     (if distance_stagnation_count s + 1 \<ge> 5 then
        Inr (False,
             [Distance_stagnation (distance_stagnation_count s + 1), Distance_frozen_suppress],
             s\<lparr>distance_stagnation_count := distance_stagnation_count s + 1\<rparr>)
      else
        Inr (True,
             [Distance_stagnation (distance_stagnation_count s + 1), Normal_show_predictions],
             s\<lparr>distance_stagnation_count := distance_stagnation_count s + 1,
               pace_anomaly_count := (if 0 < last_valid_pace s then 0 else pace_anomaly_count s),
               last_valid_pace := p\<rparr>))"
  using assms by (auto simp add: detect_defs)

text \<open>
  A sample that reaches the pace check with a ratio out of range: the spike counter goes
  up by one, and the call shows, and accepts the pace, exactly when the new count is
  below 3.
\<close>

lemma detect_spike_step:
  assumes "0 < last_valid_pace s" and "0.05 \<le> p \<and> p \<le> 20.0"
    and "\<not> (\<bar>d - last_valid_distance s\<bar> < 0.001 \<and> distance_stagnation_count s + 1 \<ge> 5)"
    and "p / last_valid_pace s > 2.0 \<or> p / last_valid_pace s < 0.5"
    and "detect s d p = Inr (b, e, s')"
  shows "b = (pace_anomaly_count s + 1 < 3) \<and>
         pace_anomaly_count s' = pace_anomaly_count s + 1 \<and>
         last_valid_pace s' = (if pace_anomaly_count s + 1 < 3 then p else last_valid_pace s)"
  using assms by (auto simp add: detect_defs split: if_splits)

text \<open>A sample that reaches the pace check with a ratio in range.\<close>

lemma detect_in_range_step:
  assumes "0 < last_valid_pace s" and "0.05 \<le> p \<and> p \<le> 20.0"
    and "\<not> (\<bar>d - last_valid_distance s\<bar> < 0.001 \<and> distance_stagnation_count s + 1 \<ge> 5)"
    and "0.5 \<le> p / last_valid_pace s \<and> p / last_valid_pace s \<le> 2.0"
  shows "\<exists>e s'. detect s d p = Inr (True, e, s') \<and> pace_anomaly_count s' = 0 \<and>
           last_valid_pace s' = p"
  using assms by (auto simp add: detect_defs)

section \<open>The pace validator\<close>

text \<open>
  C4. For every detector state and every pace strictly below 0.05 or strictly above 20.0,
  \<open>detect\<close> returns \<^verbatim>\<open>False\<close> (do not show) with the single reason "insane pace", and
  the detector after the call is the detector before it: none of the four fields changes.
\<close>

theorem detect_insane_pace_rejected:
  assumes "pace < 0.05 \<or> pace > 20.0"
  shows "detect self elapsed_distance pace = Inr (False, [Insane_pace pace], self)"
  using assms by (simp add: detect_def MIN_REASONABLE_PACE_def MAX_REASONABLE_PACE_def)

theorem detect_insane_pace_rejected_witness:
  "((0.03::real) < 0.05 \<or> (0.03::real) > 20.0) \<and>
   detect \<lparr>last_valid_distance = 1100, distance_stagnation_count = 2,
           last_valid_pace = 0.111, pace_anomaly_count = 1\<rparr> 1000 0.03
     = Inr (False, [Insane_pace 0.03],
            \<lparr>last_valid_distance = 1100, distance_stagnation_count = 2,
             last_valid_pace = 0.111, pace_anomaly_count = 1\<rparr>)"
  using detect_insane_pace_rejected
    [of "0.03" "\<lparr>last_valid_distance = 1100, distance_stagnation_count = 2,
                  last_valid_pace = 0.111, pace_anomaly_count = 1\<rparr>" 1000]
  by simp

section \<open>The distance axis\<close>

text \<open>
  C8. When the distance check suppresses (the pace is in bounds, so that the check is
  reached; the distance is within 0.001 of \<^verbatim>\<open>last_valid_distance\<close>; the incremented
  counter is at least 5), the call returns \<^verbatim>\<open>False\<close> with the stagnation entry and
  "distance frozen" and no entry of the pace check, and \<^verbatim>\<open>pace_anomaly_count\<close> and
  \<^verbatim>\<open>last_valid_pace\<close> are what they were; so is \<^verbatim>\<open>last_valid_distance\<close>, and the
  stagnation counter is one more.
\<close>

theorem detect_distance_frozen_skips_pace_axis:
  assumes "0.05 \<le> pace" and "pace \<le> 20.0"
    and "\<bar>d - last_valid_distance self\<bar> < 0.001"
    and "distance_stagnation_count self + 1 \<ge> 5"
  shows "\<exists>self1.
           detect self d pace =
             Inr (False,
                  [Distance_stagnation (distance_stagnation_count self + 1),
                   Distance_frozen_suppress],
                  self1) \<and>
           pace_anomaly_count self1 = pace_anomaly_count self \<and>
           last_valid_pace self1 = last_valid_pace self \<and>
           last_valid_distance self1 = last_valid_distance self \<and>
           distance_stagnation_count self1 = distance_stagnation_count self + 1"
  using detect_distance_frozen [of pace d self] assms by simp

theorem detect_distance_frozen_skips_pace_axis_witness:
  "\<exists>self1.
     detect \<lparr>last_valid_distance = 1539.78, distance_stagnation_count = 4,
             last_valid_pace = 0.417, pace_anomaly_count = 1\<rparr> 1539.78 0.426 =
       Inr (False, [Distance_stagnation 5, Distance_frozen_suppress], self1) \<and>
     pace_anomaly_count self1 = 1 \<and> last_valid_pace self1 = 0.417 \<and>
     last_valid_distance self1 = 1539.78 \<and> distance_stagnation_count self1 = 5"
  using detect_distance_frozen_skips_pace_axis
    [of "0.426" "1539.78"
        "\<lparr>last_valid_distance = 1539.78, distance_stagnation_count = 4,
          last_valid_pace = 0.417, pace_anomaly_count = 1\<rparr>"]
  by simp

text \<open>
  C1. From a detector whose stagnation counter is 0, five consecutive samples follow, each
  with its distance within 0.001 of \<^verbatim>\<open>last_valid_distance\<close>, its pace in
  \<open>[0.05, 20]\<close> and its pace ratio in \<open>[0.5, 2]\<close>. The ratio of a sample is taken
  against \<^verbatim>\<open>last_valid_pace\<close> at the time of its call: for the first sample that is
  the pace of the starting state, when one has been accepted (when \<^verbatim>\<open>last_valid_pace\<close>
  is not positive the pace check is skipped); for each later sample it is the pace of the
  sample before, which the conclusion records. The ratio of the fifth sample plays no role
  and is not assumed. Then the first four calls return \<^verbatim>\<open>True\<close>, the fifth returns
  \<^verbatim>\<open>False\<close>, and \<^verbatim>\<open>last_valid_distance\<close> after each of the five calls is what it
  was at the start.
\<close>

theorem five_stagnant_samples:
  assumes c0: "distance_stagnation_count s0 = 0"
    and d1: "\<bar>d1 - last_valid_distance s0\<bar> < 0.001"
    and d2: "\<bar>d2 - last_valid_distance s0\<bar> < 0.001"
    and d3: "\<bar>d3 - last_valid_distance s0\<bar> < 0.001"
    and d4: "\<bar>d4 - last_valid_distance s0\<bar> < 0.001"
    and d5: "\<bar>d5 - last_valid_distance s0\<bar> < 0.001"
    and b1: "0.05 \<le> p1 \<and> p1 \<le> 20.0" and b2: "0.05 \<le> p2 \<and> p2 \<le> 20.0"
    and b3: "0.05 \<le> p3 \<and> p3 \<le> 20.0" and b4: "0.05 \<le> p4 \<and> p4 \<le> 20.0"
    and b5: "0.05 \<le> p5 \<and> p5 \<le> 20.0"
    and r1: "0 < last_valid_pace s0 \<longrightarrow>
               0.5 \<le> p1 / last_valid_pace s0 \<and> p1 / last_valid_pace s0 \<le> 2.0"
    and r2: "0.5 \<le> p2 / p1 \<and> p2 / p1 \<le> 2.0"
    and r3: "0.5 \<le> p3 / p2 \<and> p3 / p2 \<le> 2.0"
    and r4: "0.5 \<le> p4 / p3 \<and> p4 / p3 \<le> 2.0"
  shows "\<exists>e1 e2 e3 e4 e5 s1 s2 s3 s4 s5.
           detect s0 d1 p1 = Inr (True, e1, s1) \<and> detect s1 d2 p2 = Inr (True, e2, s2) \<and>
           detect s2 d3 p3 = Inr (True, e3, s3) \<and> detect s3 d4 p4 = Inr (True, e4, s4) \<and>
           detect s4 d5 p5 = Inr (False, e5, s5) \<and>
           last_valid_pace s1 = p1 \<and> last_valid_pace s2 = p2 \<and>
           last_valid_pace s3 = p3 \<and> last_valid_pace s4 = p4 \<and>
           last_valid_distance s1 = last_valid_distance s0 \<and>
           last_valid_distance s2 = last_valid_distance s0 \<and>
           last_valid_distance s3 = last_valid_distance s0 \<and>
           last_valid_distance s4 = last_valid_distance s0 \<and>
           last_valid_distance s5 = last_valid_distance s0"
proof -
  define s1 where "s1 = s0\<lparr>distance_stagnation_count := 1,
      pace_anomaly_count := (if 0 < last_valid_pace s0 then 0 else pace_anomaly_count s0),
      last_valid_pace := p1\<rparr>"
  define s2 where "s2 = s1\<lparr>distance_stagnation_count := 2, pace_anomaly_count := 0,
      last_valid_pace := p2\<rparr>"
  define s3 where "s3 = s2\<lparr>distance_stagnation_count := 3, pace_anomaly_count := 0,
      last_valid_pace := p3\<rparr>"
  define s4 where "s4 = s3\<lparr>distance_stagnation_count := 4, pace_anomaly_count := 0,
      last_valid_pace := p4\<rparr>"
  define s5 where "s5 = s4\<lparr>distance_stagnation_count := 5\<rparr>"
  have 1: "detect s0 d1 p1 = Inr (True, [Distance_stagnation 1, Normal_show_predictions], s1)"
    using detect_stagnant_in_range [of p1 d1 s0] c0 d1 b1 r1 by (simp add: s1_def)
  have 2: "detect s1 d2 p2 = Inr (True, [Distance_stagnation 2, Normal_show_predictions], s2)"
    using detect_stagnant_in_range [of p2 d2 s1] d2 b1 b2 r2 by (simp add: s1_def s2_def)
  have 3: "detect s2 d3 p3 = Inr (True, [Distance_stagnation 3, Normal_show_predictions], s3)"
    using detect_stagnant_in_range [of p3 d3 s2] d3 b2 b3 r3 by (simp add: s1_def s2_def s3_def)
  have 4: "detect s3 d4 p4 = Inr (True, [Distance_stagnation 4, Normal_show_predictions], s4)"
    using detect_stagnant_in_range [of p4 d4 s3] d4 b3 b4 r4
    by (simp add: s1_def s2_def s3_def s4_def)
  have 5: "detect s4 d5 p5 = Inr (False, [Distance_stagnation 5, Distance_frozen_suppress], s5)"
    using detect_distance_frozen [of p5 d5 s4] d5 b5
    by (simp add: s1_def s2_def s3_def s4_def s5_def)
  have "last_valid_pace s1 = p1" "last_valid_pace s2 = p2" "last_valid_pace s3 = p3"
    "last_valid_pace s4 = p4"
    "last_valid_distance s1 = last_valid_distance s0"
    "last_valid_distance s2 = last_valid_distance s0"
    "last_valid_distance s3 = last_valid_distance s0"
    "last_valid_distance s4 = last_valid_distance s0"
    "last_valid_distance s5 = last_valid_distance s0"
    by (simp_all add: s1_def s2_def s3_def s4_def s5_def)
  with 1 2 3 4 5 show ?thesis by blast
qed

theorem five_stagnant_samples_witness:
  "\<exists>e1 e2 e3 e4 e5 s1 s2 s3 s4 s5.
     detect \<lparr>last_valid_distance = 1539.78, distance_stagnation_count = 0,
             last_valid_pace = 0.385, pace_anomaly_count = 0\<rparr> 1539.78 0.392
       = Inr (True, e1, s1) \<and>
     detect s1 1539.78 0.400 = Inr (True, e2, s2) \<and>
     detect s2 1539.78 0.408 = Inr (True, e3, s3) \<and>
     detect s3 1539.78 0.417 = Inr (True, e4, s4) \<and>
     detect s4 1539.78 0.426 = Inr (False, e5, s5) \<and>
     last_valid_pace s1 = 0.392 \<and> last_valid_pace s2 = 0.400 \<and>
     last_valid_pace s3 = 0.408 \<and> last_valid_pace s4 = 0.417 \<and>
     last_valid_distance s1 = 1539.78 \<and> last_valid_distance s2 = 1539.78 \<and>
     last_valid_distance s3 = 1539.78 \<and> last_valid_distance s4 = 1539.78 \<and>
     last_valid_distance s5 = 1539.78"
  using five_stagnant_samples
    [where ?s0.0 = "\<lparr>last_valid_distance = 1539.78, distance_stagnation_count = 0,
                     last_valid_pace = 0.385, pace_anomaly_count = 0\<rparr>"
       and ?d1.0 = "1539.78" and ?d2.0 = "1539.78" and ?d3.0 = "1539.78"
       and ?d4.0 = "1539.78" and ?d5.0 = "1539.78"
       and ?p1.0 = "0.392" and ?p2.0 = "0.400" and ?p3.0 = "0.408" and ?p4.0 = "0.417"
       and ?p5.0 = "0.426"]
  by simp

section \<open>The pace axis\<close>

text \<open>
  C2. From a detector with \<^verbatim>\<open>last_valid_pace > 0\<close>, three consecutive calls are made.
  Each pace is in \<open>[0.05, 20]\<close>; no call is suppressed by the distance check (the
  distance is not within 0.001 of \<^verbatim>\<open>last_valid_distance\<close>, or the incremented
  counter stays below 5); and each pace ratio, taken against \<^verbatim>\<open>last_valid_pace\<close> at
  the time of the call, is above 2.0 or below 0.5. \<open>s1\<close> and \<open>s2\<close> are the detector
  after the first and after the second call (every call returns, see \<open>detect_returns\<close>
  above). Then the third call returns \<^verbatim>\<open>False\<close> and
  leaves \<^verbatim>\<open>last_valid_pace\<close> as it was before that call. Second part: on any sample
  that reaches the pace check with a ratio in \<open>[0.5, 2]\<close>, the call returns
  \<^verbatim>\<open>True\<close> and \<^verbatim>\<open>pace_anomaly_count\<close> is 0 afterwards.
\<close>

theorem three_pace_spikes:
  assumes lvp0: "0 < last_valid_pace s0"
    and b1: "0.05 \<le> p1 \<and> p1 \<le> 20.0" and b2: "0.05 \<le> p2 \<and> p2 \<le> 20.0"
    and b3: "0.05 \<le> p3 \<and> p3 \<le> 20.0"
    and n1: "\<not> (\<bar>d1 - last_valid_distance s0\<bar> < 0.001 \<and> distance_stagnation_count s0 + 1 \<ge> 5)"
    and n2: "\<not> (\<bar>d2 - last_valid_distance s1\<bar> < 0.001 \<and> distance_stagnation_count s1 + 1 \<ge> 5)"
    and n3: "\<not> (\<bar>d3 - last_valid_distance s2\<bar> < 0.001 \<and> distance_stagnation_count s2 + 1 \<ge> 5)"
    and k1: "p1 / last_valid_pace s0 > 2.0 \<or> p1 / last_valid_pace s0 < 0.5"
    and k2: "p2 / last_valid_pace s1 > 2.0 \<or> p2 / last_valid_pace s1 < 0.5"
    and k3: "p3 / last_valid_pace s2 > 2.0 \<or> p3 / last_valid_pace s2 < 0.5"
    and step1: "detect s0 d1 p1 = Inr (v1, e1, s1)"
    and step2: "detect s1 d2 p2 = Inr (v2, e2, s2)"
  shows "(\<exists>e3 s3. detect s2 d3 p3 = Inr (False, e3, s3) \<and>
            last_valid_pace s3 = last_valid_pace s2) \<and>
         (0 < last_valid_pace s \<and> 0.05 \<le> p \<and> p \<le> 20.0 \<and>
            \<not> (\<bar>d - last_valid_distance s\<bar> < 0.001 \<and> distance_stagnation_count s + 1 \<ge> 5) \<and>
            0.5 \<le> p / last_valid_pace s \<and> p / last_valid_pace s \<le> 2.0 \<longrightarrow>
            (\<exists>e s'. detect s d p = Inr (True, e, s') \<and> pace_anomaly_count s' = 0))"
proof (intro conjI impI)
  from detect_spike_step [OF lvp0 b1 n1 k1 step1]
  have c1: "pace_anomaly_count s1 = pace_anomaly_count s0 + 1"
    and l1: "0 < last_valid_pace s1"
    using lvp0 b1 by (simp_all split: if_splits)
  from detect_spike_step [OF l1 b2 n2 k2 step2]
  have c2: "pace_anomaly_count s2 = pace_anomaly_count s0 + 2"
    and l2: "0 < last_valid_pace s2"
    using l1 b2 c1 by (simp_all split: if_splits)
  obtain r where "detect s2 d3 p3 = Inr r"
    using detect_returns by blast
  then obtain v3 e3 s3 where step3: "detect s2 d3 p3 = Inr (v3, e3, s3)"
    by (cases r) auto
  from detect_spike_step [OF l2 b3 n3 k3 step3] c2
  have "v3 = False" and "last_valid_pace s3 = last_valid_pace s2"
    by simp_all
  with step3 show "\<exists>e3 s3. detect s2 d3 p3 = Inr (False, e3, s3) \<and>
            last_valid_pace s3 = last_valid_pace s2"
    by blast
next
  assume "0 < last_valid_pace s \<and> 0.05 \<le> p \<and> p \<le> 20.0 \<and>
            \<not> (\<bar>d - last_valid_distance s\<bar> < 0.001 \<and> distance_stagnation_count s + 1 \<ge> 5) \<and>
            0.5 \<le> p / last_valid_pace s \<and> p / last_valid_pace s \<le> 2.0"
  then show "\<exists>e s'. detect s d p = Inr (True, e, s') \<and> pace_anomaly_count s' = 0"
    using detect_in_range_step [of s p d] by blast
qed

theorem three_pace_spikes_witness:
  "(\<exists>e3 s3.
      detect \<lparr>last_valid_distance = 1200, distance_stagnation_count = 0,
              last_valid_pace = 0.9, pace_anomaly_count = 2\<rparr> 1300 0.4
        = Inr (False, e3, s3) \<and> last_valid_pace s3 = 0.9) \<and>
   (\<exists>e s'.
      detect \<lparr>last_valid_distance = 1200, distance_stagnation_count = 0,
              last_valid_pace = 0.9, pace_anomaly_count = 2\<rparr> 1300 0.8
        = Inr (True, e, s') \<and> pace_anomaly_count s' = 0)"
proof -
  let ?s0 = "\<lparr>last_valid_distance = 1000, distance_stagnation_count = 0,
               last_valid_pace = 0.1, pace_anomaly_count = 0\<rparr>"
  let ?s1 = "\<lparr>last_valid_distance = 1100, distance_stagnation_count = 0,
               last_valid_pace = 0.3, pace_anomaly_count = 1\<rparr>"
  let ?s2 = "\<lparr>last_valid_distance = 1200, distance_stagnation_count = 0,
               last_valid_pace = 0.9, pace_anomaly_count = 2\<rparr>"
  have step1: "detect ?s0 1100 0.3 = Inr (True, [Pace_spike 3 1, Normal_show_predictions], ?s1)"
    by (simp add: detect_defs)
  have step2: "detect ?s1 1200 0.9 = Inr (True, [Pace_spike 3 2, Normal_show_predictions], ?s2)"
    by (simp add: detect_defs)
  have "(\<exists>e3 s3. detect ?s2 1300 0.4 = Inr (False, e3, s3) \<and>
            last_valid_pace s3 = last_valid_pace ?s2) \<and>
         (0 < last_valid_pace ?s2 \<and> (0.05::real) \<le> 0.8 \<and> (0.8::real) \<le> 20.0 \<and>
            \<not> (\<bar>1300 - last_valid_distance ?s2\<bar> < 0.001 \<and>
               distance_stagnation_count ?s2 + 1 \<ge> 5) \<and>
            0.5 \<le> 0.8 / last_valid_pace ?s2 \<and> 0.8 / last_valid_pace ?s2 \<le> 2.0 \<longrightarrow>
            (\<exists>e s'. detect ?s2 1300 0.8 = Inr (True, e, s') \<and> pace_anomaly_count s' = 0))"
    by (rule three_pace_spikes [OF _ _ _ _ _ _ _ _ _ _ step1 step2]) simp_all
  then have a: "\<exists>e3 s3. detect ?s2 1300 0.4 = Inr (False, e3, s3) \<and> last_valid_pace s3 = 0.9"
    and "\<exists>e s'. detect ?s2 1300 0.8 = Inr (True, e, s') \<and> pace_anomaly_count s' = 0"
    by simp_all
  then show ?thesis by simp
qed

text \<open>
  C7. Every call returns, and \<^verbatim>\<open>last_valid_pace\<close> after it is the pace argument when
  the call returned \<^verbatim>\<open>True\<close> and is what it was before when the call returned
  \<^verbatim>\<open>False\<close>. A call returning \<^verbatim>\<open>True\<close> ends its explanation with "normal"; a call
  returning \<^verbatim>\<open>False\<close> ends it with insane pace, distance frozen or multiple pace
  spikes. The instance after the theorem is a sample that counts a first spike, is shown,
  and whose pace is accepted.
\<close>

theorem detect_last_valid_pace_iff_show:
  "\<exists>should_show expl self1.
     detect self d pace = Inr (should_show, expl, self1) \<and>
     (if should_show
      then last_valid_pace self1 = pace \<and> last expl = Normal_show_predictions
      else last_valid_pace self1 = last_valid_pace self \<and>
           last expl \<in> {Insane_pace pace, Distance_frozen_suppress,
                         Multiple_pace_spikes_suppress})"
  by (auto simp add: detect_defs)

theorem detect_last_valid_pace_iff_show_witness:
  "\<exists>self1.
     detect \<lparr>last_valid_distance = 1000, distance_stagnation_count = 0,
             last_valid_pace = 0.1, pace_anomaly_count = 0\<rparr> 1100 0.3
       = Inr (True, [Pace_spike 3 1, Normal_show_predictions], self1) \<and>
     pace_anomaly_count self1 = 1 \<and> last_valid_pace self1 = 0.3"
  using detect_last_valid_pace_iff_show
    [of "\<lparr>last_valid_distance = 1000, distance_stagnation_count = 0,
           last_valid_pace = 0.1, pace_anomaly_count = 0\<rparr>" 1100 "0.3"]
  by (simp add: detect_defs)

section \<open>The spike recovery scenario\<close>

text \<open>
  C3, as stated, fails. \<^verbatim>\<open>test_scenario\<close> on the seven events of
  \<^verbatim>\<open>test_pace_spike_recovery\<close> shows the sixth sample: the only suppressed sample is
  the fourth, and no explanation has a pace spike entry.
\<close>

theorem spike_recovery_sixth_sample_shown:
  "test_scenario pace_spike_recovery_events =
     Inr ([(True, [Normal_show_predictions]), (True, [Normal_show_predictions]),
           (True, [Normal_show_predictions]), (False, [Insane_pace 0.044]),
           (True, [Normal_show_predictions]), (True, [Normal_show_predictions]),
           (True, [Normal_show_predictions])],
          \<lparr>last_valid_distance = 1050, distance_stagnation_count = 0,
           last_valid_pace = 0.105, pace_anomaly_count = 0\<rparr>,
          1)"
  by (simp add: test_scenario_def pace_spike_recovery_events_def detect_event_def init_def
      detect_defs)

text \<open>
  C3, amended. The seven calls one by one, from a fresh detector, each with the detector it
  leaves behind. Samples 1, 2, 3, 5, 6 and 7 return \<^verbatim>\<open>True\<close> with the single reason
  "normal". The pace 0.044 of sample 4 is below \<^verbatim>\<open>MIN_REASONABLE_PACE\<close>: the call
  returns \<^verbatim>\<open>False\<close> with the reason "insane pace" and leaves the detector as it was.
  The ratios that reach the pace check are 1.05, 1.057, 0.946 (sample 5 against the 0.111
  of sample 3), 0.952 and 1.05, all in range, so \<^verbatim>\<open>pace_anomaly_count\<close> is 0 after
  every call.
\<close>

theorem spike_recovery_trace:
  "detect init 1000 0.100 =
     Inr (True, [Normal_show_predictions],
          \<lparr>last_valid_distance = 1000, distance_stagnation_count = 0,
           last_valid_pace = 0.100, pace_anomaly_count = 0\<rparr>) \<and>
   detect \<lparr>last_valid_distance = 1000, distance_stagnation_count = 0,
           last_valid_pace = 0.100, pace_anomaly_count = 0\<rparr> 1050 0.105 =
     Inr (True, [Normal_show_predictions],
          \<lparr>last_valid_distance = 1050, distance_stagnation_count = 0,
           last_valid_pace = 0.105, pace_anomaly_count = 0\<rparr>) \<and>
   detect \<lparr>last_valid_distance = 1050, distance_stagnation_count = 0,
           last_valid_pace = 0.105, pace_anomaly_count = 0\<rparr> 1100 0.111 =
     Inr (True, [Normal_show_predictions],
          \<lparr>last_valid_distance = 1100, distance_stagnation_count = 0,
           last_valid_pace = 0.111, pace_anomaly_count = 0\<rparr>) \<and>
   (0.044::real) < MIN_REASONABLE_PACE \<and>
   detect \<lparr>last_valid_distance = 1100, distance_stagnation_count = 0,
           last_valid_pace = 0.111, pace_anomaly_count = 0\<rparr> 900 0.044 =
     Inr (False, [Insane_pace 0.044],
          \<lparr>last_valid_distance = 1100, distance_stagnation_count = 0,
           last_valid_pace = 0.111, pace_anomaly_count = 0\<rparr>) \<and>
   detect \<lparr>last_valid_distance = 1100, distance_stagnation_count = 0,
           last_valid_pace = 0.111, pace_anomaly_count = 0\<rparr> 950 0.105 =
     Inr (True, [Normal_show_predictions],
          \<lparr>last_valid_distance = 950, distance_stagnation_count = 0,
           last_valid_pace = 0.105, pace_anomaly_count = 0\<rparr>) \<and>
   detect \<lparr>last_valid_distance = 950, distance_stagnation_count = 0,
           last_valid_pace = 0.105, pace_anomaly_count = 0\<rparr> 1000 0.100 =
     Inr (True, [Normal_show_predictions],
          \<lparr>last_valid_distance = 1000, distance_stagnation_count = 0,
           last_valid_pace = 0.100, pace_anomaly_count = 0\<rparr>) \<and>
   detect \<lparr>last_valid_distance = 1000, distance_stagnation_count = 0,
           last_valid_pace = 0.100, pace_anomaly_count = 0\<rparr> 1050 0.105 =
     Inr (True, [Normal_show_predictions],
          \<lparr>last_valid_distance = 1050, distance_stagnation_count = 0,
           last_valid_pace = 0.105, pace_anomaly_count = 0\<rparr>)"
  by (simp add: init_def detect_defs)

section \<open>The elapsed time of an event\<close>

text \<open>
  C10. The detector is called with the distance and the pace of an event and nothing else
  of it. Two events that agree on \<^verbatim>\<open>distance_m\<close> and \<^verbatim>\<open>calculated_pace\<close>, whatever
  their \<^verbatim>\<open>elapsed_time_ms\<close> (and their two labels), give from the same detector the
  same returned pair and the same detector afterwards.
\<close>

theorem detect_event_ignores_elapsed_time:
  assumes "distance_m e1 = distance_m e2" and "calculated_pace e1 = calculated_pace e2"
  shows "detect_event s e1 = detect_event s e2"
  using assms by (simp add: detect_event_def)

theorem detect_event_ignores_elapsed_time_witness:
  "detect_event
     \<lparr>last_valid_distance = 1000, distance_stagnation_count = 0,
      last_valid_pace = 0.1, pace_anomaly_count = 0\<rparr>
     \<lparr>elapsed_time_ms = 20000, distance_m = 1050, calculated_pace = 0.105,
      anomaly_type = Some ''normal'', explanation = ''Slight variance OK''\<rparr> =
   detect_event
     \<lparr>last_valid_distance = 1000, distance_stagnation_count = 0,
      last_valid_pace = 0.1, pace_anomaly_count = 0\<rparr>
     \<lparr>elapsed_time_ms = 70000, distance_m = 1050, calculated_pace = 0.105,
      anomaly_type = None, explanation = ''Reset on recovery''\<rparr>"
  by (rule detect_event_ignores_elapsed_time) simp_all

text \<open>The same for whole runs of the loop of \<^verbatim>\<open>test_scenario\<close>.\<close>

lemma run_events_ignores_elapsed_time:
  assumes "map distance_m es1 = map distance_m es2"
    and "map calculated_pace es1 = map calculated_pace es2"
  shows "run_events s es1 = run_events s es2"
  using assms
proof (induction es1 arbitrary: es2 s)
  case Nil
  then show ?case by simp
next
  case (Cons e1 es1)
  then obtain e2 es2' where es2: "es2 = e2 # es2'"
    by (cases es2) auto
  with Cons.prems have "detect_event s e1 = detect_event s e2"
    by (simp add: detect_event_def)
  moreover have "run_events s' es1 = run_events s' es2'" for s'
    using Cons.IH [of es2' s'] Cons.prems es2 by simp
  ultimately show ?case
    using es2 by (simp split: sum.splits prod.splits)
qed

section \<open>The 5K estimate\<close>

text \<open>
  Both scripts divide by the distance only behind the test \<^verbatim>\<open>distance_m > 0\<close>, so the
  pace and the estimate are computed for every pair of numbers.
\<close>

lemma pace_sec_per_m_fit_returns: "\<exists>r. pace_sec_per_m_fit t dm = Inr r"
  by (simp add: pace_sec_per_m_fit_def py_truediv_def)

lemma pace_sec_per_m_gpx_returns: "\<exists>r. pace_sec_per_m_gpx e dm = Inr r"
  by (simp add: pace_sec_per_m_gpx_def py_truediv_def)

lemma est_sec_fit_returns: "\<exists>r. est_sec_fit target t dm = Inr r"
proof -
  obtain r where "pace_sec_per_m_fit t dm = Inr r"
    using pace_sec_per_m_fit_returns by blast
  then show ?thesis
    by (simp add: est_sec_fit_def)
qed

lemma est_gpx_returns: "\<exists>r. est_gpx target e dm = Inr r"
proof -
  obtain r where "pace_sec_per_m_gpx e dm = Inr r"
    using pace_sec_per_m_gpx_returns by blast
  then show ?thesis
    by (simp add: est_gpx_def del: split_paired_Ex)
qed

text \<open>
  The estimate as a function of the distance and of the pace that lines 104 to 108 (155 to
  159) have computed. Past the warm-up test of the script and with a sane pace it is
  \<open>(target - distance) * pace\<close> when that remaining distance is positive, and
  otherwise 0 in \<^verbatim>\<open>analyze_fit.py\<close> and \<^verbatim>\<open>"HIT!"\<close> in \<^verbatim>\<open>analyze_gpx.py\<close>; it
  is never negative. The warm-up test is \<^verbatim>\<open>distance_m >= 100\<close> in
  \<^verbatim>\<open>analyze_gpx.py\<close> and \<^verbatim>\<open>distance_m > 100\<close> in \<^verbatim>\<open>analyze_fit.py\<close>.
\<close>

lemma estimate_gpx_past_warmup:
  assumes "100 \<le> d" and "0.05 \<le> pace \<and> pace \<le> 20.0"
  shows "if target - d > 0
         then \<exists>est str. estimate_gpx target d pace = (Some est, str, Check) \<and>
                0 \<le> est \<and> est = (target - d) * pace
         else estimate_gpx target d pace = (None, HIT, Check_HIT)"
proof -
  have "(0::real) < 0.05" by simp
  then have "0 < pace" using assms(2) by (simp add: less_le_trans)
  then have "target - d > 0 \<Longrightarrow> 0 \<le> (target - d) * pace"
    by (intro mult_nonneg_nonneg) simp_all
  then show ?thesis
    using assms by (simp add: estimate_gpx_def Let_def)
qed

lemma estimate_fit_past_warmup:
  assumes "100 < d" and "0.05 \<le> pace \<and> pace \<le> 20.0"
  shows "estimate_fit target d pace = (if target - d > 0 then (target - d) * pace else 0) \<and>
         0 \<le> estimate_fit target d pace"
proof -
  have "(0::real) < 0.05" by simp
  then have "0 < pace" using assms(2) by (simp add: less_le_trans)
  then have "target - d > 0 \<Longrightarrow> 0 \<le> (target - d) * pace"
    by (intro mult_nonneg_nonneg) simp_all
  then show ?thesis
    using assms by (simp add: estimate_fit_def Let_def)
qed

text \<open>
  The two scripts on 1000 s at 1000 m: the pace is 1.0 s/m and the estimate 4000 s,
  printed as 66:40 by \<^verbatim>\<open>analyze_gpx.py\<close>.
\<close>

lemma est_5k_after_one_km:
  "est_5k_sec_fit 1000000 1000 = Inr 4000 \<and>
   est_5k_gpx 1000 1000 = Inr (Some 4000, Min_sec 66 40, Check)"
  by (simp add: pace_sec_per_m_fit_def est_5k_sec_fit_def est_sec_fit_def estimate_fit_def
     pace_sec_per_m_gpx_def est_5k_gpx_def est_gpx_def estimate_gpx_def py_truediv_def Let_def)

text \<open>
  C5. The claim takes the warm-up guard to be a distance of at least 100, and says that
  with a positive elapsed time, that guard and a sane pace, the estimate is
  \<open>(target - distance) * (elapsed / distance)\<close> whenever the remaining distance is
  positive. \<^verbatim>\<open>analyze_fit.py\<close> does not do this at a distance of exactly 100. With
  50 s elapsed (timer 50000 ms) at 100 m and the target 5000, the elapsed time is positive,
  the distance is at least 100, the pace 0.5 s/m is sane and 4900 m remain, so the claim
  gives 4900 * 0.5 = 2450 s; the test \<^verbatim>\<open>distance_m > 100\<close> of line 111 fails and
  \<^verbatim>\<open>est_5k_sec\<close> is 0. \<^verbatim>\<open>analyze_gpx.py\<close>, whose test is
  \<^verbatim>\<open>distance_m >= 100\<close>, computes the 2450 s and prints 40:50.
\<close>

theorem est_5k_sec_fit_no_estimate_at_100_m:
  "(0::real) < 50 \<and> (100::real) \<le> 100 \<and>
   (0.05::real) \<le> 50 / 100 \<and> (50::real) / 100 \<le> 20.0 \<and>
   (0::real) < 5000 - 100 \<and> (5000 - 100) * (50 / 100) = (2450::real) \<and>
   pace_sec_per_m_fit 50000 100 = Inr 0.5 \<and>
   est_5k_sec_fit 50000 100 = Inr 0 \<and>
   est_5k_gpx 50 100 = Inr (Some 2450, Min_sec 40 50, Check)"
  by (simp add: pace_sec_per_m_fit_def est_5k_sec_fit_def est_sec_fit_def estimate_fit_def
     pace_sec_per_m_gpx_def est_5k_gpx_def est_gpx_def estimate_gpx_def py_truediv_def Let_def)

text \<open>
  For a sane pace, \<^verbatim>\<open>analyze_gpx.py\<close> gives an estimate (or \<^verbatim>\<open>"HIT!"\<close>) exactly
  when the distance is at least 100.
\<close>

lemma estimate_gpx_available_iff:
  assumes "0.05 \<le> pace \<and> pace \<le> 20.0"
  shows "snd (snd (estimate_gpx target d pace)) \<in> {Check, Check_HIT} \<longleftrightarrow> 100 \<le> d"
  using assms by (simp add: estimate_gpx_def Let_def)

text \<open>
  C6. The warm-up tests of the two scripts differ at a distance of exactly 100:
  \<^verbatim>\<open>analyze_gpx.py\<close> tests \<^verbatim>\<open>distance_m >= 100\<close>, \<^verbatim>\<open>analyze_fit.py\<close> tests
  \<^verbatim>\<open>distance_m > 100\<close>. At 100 m with the sane pace 0.1 s/m (10 s elapsed),
  \<^verbatim>\<open>analyze_fit.py\<close> takes the branch of line 118 and yields 0, where
  \<^verbatim>\<open>analyze_gpx.py\<close> computes 4900 * 0.1 = 490 s, printed as 8:10.
\<close>

theorem est_5k_at_warmup_boundary:
  "est_5k_sec_fit 10000 100 = Inr 0 \<and>
   est_5k_gpx 10 100 = Inr (Some 490, Min_sec 8 10, Check)"
  by (simp add: pace_sec_per_m_fit_def est_5k_sec_fit_def est_sec_fit_def estimate_fit_def
     pace_sec_per_m_gpx_def est_5k_gpx_def est_gpx_def estimate_gpx_def py_truediv_def Let_def)

section \<open>No exception\<close>

text \<open>
  C9. For all numbers, the detector call, the two pace computations and the two estimates
  return a value and raise nothing: the only operation of these computations that can
  raise is the division, and it is reached only with a positive divisor. In particular a
  pace of zero is rejected by the detector as insane, with the detector unchanged, and a
  distance of zero gives the pace 0 and no estimate.
\<close>

theorem no_error_reachable:
  "(\<exists>r. detect self d pace = Inr r) \<and>
   (\<exists>r. pace_sec_per_m_fit t dm = Inr r) \<and> (\<exists>r. est_5k_sec_fit t dm = Inr r) \<and>
   (\<exists>r. pace_sec_per_m_gpx e dm = Inr r) \<and> (\<exists>r. est_5k_gpx e dm = Inr r) \<and>
   detect self d 0 = Inr (False, [Insane_pace 0], self) \<and>
   pace_sec_per_m_fit t 0 = Inr 0 \<and> est_5k_sec_fit t 0 = Inr 0 \<and>
   pace_sec_per_m_gpx e 0 = Inr 0 \<and> est_5k_gpx e 0 = Inr (None, Dashes, WARMUP)"
proof -
  have "detect self d 0 = Inr (False, [Insane_pace 0], self)"
    by (simp add: detect_def MIN_REASONABLE_PACE_def)
  moreover have "pace_sec_per_m_fit t 0 = Inr 0" "pace_sec_per_m_gpx e 0 = Inr 0"
    by (simp_all add: pace_sec_per_m_fit_def pace_sec_per_m_gpx_def)
  moreover from this have "est_5k_sec_fit t 0 = Inr 0"
    "est_5k_gpx e 0 = Inr (None, Dashes, WARMUP)"
    by (simp_all add: est_5k_sec_fit_def est_sec_fit_def estimate_fit_def
        est_5k_gpx_def est_gpx_def estimate_gpx_def)
  ultimately show ?thesis
    unfolding est_5k_sec_fit_def est_5k_gpx_def
    by (intro conjI detect_returns pace_sec_per_m_fit_returns pace_sec_per_m_gpx_returns
        est_sec_fit_returns est_gpx_returns)
qed

end
